theory Spec2Isabelle
  imports Complex_Main
begin

section \<open>Sensors (src/pi\_kiosk/sensors.py)\<close>

text \<open>
  The driver objects, the bus and the clock are outside the program. Each call of the
  model receives what they answer as an argument: the value of every
  \<^verbatim>\<open>time.monotonic()\<close> call, the outcome of every attribute access on the
  driver object, and the outcome of the driver constructor. Python floats are
  modelled as reals and Python's unbounded integers as \<open>nat\<close> or \<open>int\<close>. Log calls
  are left out; every bus access is recorded in a list of events instead.
\<close>

type_synonym handle = nat
type_synonym bus = nat

text \<open>
  The outcome of reading an attribute of the driver object: the attribute does not
  exist (\<^verbatim>\<open>AttributeError\<close>), the access raises another exception (a bus error),
  or it yields a value.
\<close>

datatype 'a attr = Missing | Raises | Val 'a

datatype io_event =
    InitDistance | InitLight
  | ProbeDataReady | GetDataReady | GetDistance | ClearInterrupt | GetLux

record sensor_state =
  enabled :: bool
  sensor :: "handle option"
  fail_count :: nat
  next_attempt :: real
  i2c :: "bus option"

record distance_env =
  d_clock :: real
  d_clock_fail :: real
  d_construct :: "handle option"
  d_has_data_ready :: "bool attr"
  d_data_ready :: "bool attr"
  d_distance :: "real option attr"
  d_clear_interrupt :: "unit attr"

record light_env =
  l_clock :: real
  l_clock_fail :: real
  l_construct :: "handle option"
  l_lux :: "real option attr"

text \<open>\<^verbatim>\<open>_BaseSensor.__init__\<close>, with the \<^verbatim>\<open>_i2c\<close> field both subclasses add.\<close>

definition base_sensor :: "bool \<Rightarrow> bus option \<Rightarrow> sensor_state" where
  "base_sensor en b =
     \<lparr>enabled = en, sensor = None, fail_count = 0, next_attempt = 0, i2c = b\<rparr>"

definition is_supported :: "sensor_state \<Rightarrow> bool" where
  "is_supported s = (sensor s \<noteq> None)"

definition disable :: "sensor_state \<Rightarrow> sensor_state" where
  "disable s = s\<lparr>enabled := False, sensor := None\<rparr>"

text \<open>\<^verbatim>\<open>_backoff\<close>; the argument \<open>now\<close> is what \<^verbatim>\<open>time.monotonic()\<close> returns there.\<close>

definition backoff :: "real \<Rightarrow> sensor_state \<Rightarrow> sensor_state" where
  "backoff now s =
     (let fc = fail_count s + 1;
          delay = min (2 ^ fc) (60 :: nat)
      in s\<lparr>fail_count := fc, next_attempt := now + real delay\<rparr>)"

text \<open>
  \<^verbatim>\<open>_ready\<close>; \<open>attempt_init\<close> is the subclass's \<^verbatim>\<open>_attempt_init\<close> and \<open>now\<close> the
  clock value read in \<^verbatim>\<open>_ready\<close>.
\<close>

definition ready ::
  "(sensor_state \<Rightarrow> sensor_state \<times> io_event list) \<Rightarrow> real \<Rightarrow> sensor_state
     \<Rightarrow> bool \<times> sensor_state \<times> io_event list" where
  "ready attempt_init now s =
     (if \<not> enabled s then (False, s, [])
      else if now < next_attempt s then (False, s, [])
      else (let (s1, io) = (if sensor s = None then attempt_init s else (s, []))
            in (sensor s1 \<noteq> None, s1, io)))"

text \<open>
  \<^verbatim>\<open>DistanceSensor._attempt_init\<close>. \<open>ctor = None\<close> stands for the import or the
  constructor raising; the inner \<^verbatim>\<open>try\<close> around \<^verbatim>\<open>start_ranging\<close> swallows its
  exception and changes nothing in the state.
\<close>

definition distance_attempt_init ::
  "real \<Rightarrow> handle option \<Rightarrow> sensor_state \<Rightarrow> sensor_state \<times> io_event list" where
  "distance_attempt_init now_fail ctor s =
     (if \<not> enabled s then (s, [])
      else if i2c s = None then (disable s, [])
      else (case ctor of
              Some h \<Rightarrow> (s\<lparr>sensor := Some h, fail_count := 0\<rparr>, [InitDistance])
            | None \<Rightarrow> (backoff now_fail (s\<lparr>sensor := None\<rparr>), [InitDistance])))"

definition light_attempt_init ::
  "real \<Rightarrow> handle option \<Rightarrow> sensor_state \<Rightarrow> sensor_state \<times> io_event list" where
  "light_attempt_init now_fail ctor s =
     (if \<not> enabled s then (s, [])
      else if i2c s = None then (disable s, [])
      else (case ctor of
              Some h \<Rightarrow> (s\<lparr>sensor := Some h, fail_count := 0\<rparr>, [InitLight])
            | None \<Rightarrow> (backoff now_fail (s\<lparr>sensor := None\<rparr>), [InitLight])))"

text \<open>
  The body of the \<^verbatim>\<open>try\<close> block of \<^verbatim>\<open>DistanceSensor.read\<close>, from
  \<^verbatim>\<open>getattr(sensor, "distance", None)\<close> on. \<open>Inl\<close> is an exception reaching the
  \<^verbatim>\<open>except\<close> clause (with the bus accesses made so far), \<open>Inr\<close> a normal return.
  \<^verbatim>\<open>not distance or distance <= 0\<close> holds for \<^verbatim>\<open>None\<close>, zero and negative values.
\<close>

definition distance_fetch ::
  "distance_env \<Rightarrow> sensor_state \<Rightarrow> io_event list
     \<Rightarrow> io_event list + (real option \<times> sensor_state \<times> io_event list)" where
  "distance_fetch e s io =
     (case d_distance e of
        Raises \<Rightarrow> Inl (io @ [GetDistance])
      | got \<Rightarrow>
         (let distance = (case got of Val v \<Rightarrow> v | _ \<Rightarrow> None);
              io1 = io @ [GetDistance]
          in (case d_clear_interrupt e of
                Raises \<Rightarrow> Inl (io1 @ [ClearInterrupt])
              | ci \<Rightarrow>
                 (let io2 = (case ci of Val _ \<Rightarrow> io1 @ [ClearInterrupt] | _ \<Rightarrow> io1)
                  in (case distance of
                        None \<Rightarrow> Inr (None, s, io2)
                      | Some d \<Rightarrow>
                          if d = 0 \<or> d \<le> 0 then Inr (None, s, io2)
                          else Inr (Some d, s\<lparr>fail_count := 0\<rparr>, io2))))))"

text \<open>
  The whole \<^verbatim>\<open>try\<close> block. \<^verbatim>\<open>hasattr(sensor, "data_ready")\<close> evaluates the
  property once (only \<^verbatim>\<open>AttributeError\<close> makes it false, any other exception
  propagates), and \<^verbatim>\<open>sensor.data_ready\<close> evaluates it again.
\<close>

definition distance_try ::
  "distance_env \<Rightarrow> sensor_state
     \<Rightarrow> io_event list + (real option \<times> sensor_state \<times> io_event list)" where
  "distance_try e s =
     (case sensor s of
        None \<Rightarrow> Inr (None, s, [])
      | Some h \<Rightarrow>
         (case d_has_data_ready e of
            Raises \<Rightarrow> Inl [ProbeDataReady]
          | Missing \<Rightarrow> distance_fetch e s [ProbeDataReady]
          | Val _ \<Rightarrow>
             (case d_data_ready e of
                Val True \<Rightarrow> distance_fetch e s [ProbeDataReady, GetDataReady]
              | Val False \<Rightarrow> Inr (None, s, [ProbeDataReady, GetDataReady])
              | _ \<Rightarrow> Inl [ProbeDataReady, GetDataReady])))"

definition distance_read ::
  "distance_env \<Rightarrow> sensor_state \<Rightarrow> real option \<times> sensor_state \<times> io_event list" where
  "distance_read e s =
     (let (ok, s1, io1) =
            ready (distance_attempt_init (d_clock_fail e) (d_construct e)) (d_clock e) s
      in if \<not> ok then (None, s1, io1)
         else (case distance_try e s1 of
                 Inr (r, s2, io2) \<Rightarrow> (r, s2, io1 @ io2)
               | Inl io2 \<Rightarrow>
                   (None, backoff (d_clock_fail e) (s1\<lparr>sensor := None\<rparr>), io1 @ io2)))"

definition light_try ::
  "light_env \<Rightarrow> sensor_state
     \<Rightarrow> io_event list + (real option \<times> sensor_state \<times> io_event list)" where
  "light_try e s =
     (case sensor s of
        None \<Rightarrow> Inr (None, s, [])
      | Some h \<Rightarrow>
         (case l_lux e of
            Raises \<Rightarrow> Inl [GetLux]
          | got \<Rightarrow>
             (case (case got of Val v \<Rightarrow> v | _ \<Rightarrow> None) of
                None \<Rightarrow> Inr (None, s, [GetLux])
              | Some lux \<Rightarrow> Inr (Some lux, s\<lparr>fail_count := 0\<rparr>, [GetLux]))))"

definition light_read ::
  "light_env \<Rightarrow> sensor_state \<Rightarrow> real option \<times> sensor_state \<times> io_event list" where
  "light_read e s =
     (let (ok, s1, io1) =
            ready (light_attempt_init (l_clock_fail e) (l_construct e)) (l_clock e) s
      in if \<not> ok then (None, s1, io1)
         else (case light_try e s1 of
                 Inr (r, s2, io2) \<Rightarrow> (r, s2, io1 @ io2)
               | Inl io2 \<Rightarrow>
                   (None, backoff (l_clock_fail e) (s1\<lparr>sensor := None\<rparr>), io1 @ io2)))"

text \<open>The constructors \<^verbatim>\<open>DistanceSensor.__init__\<close> and \<^verbatim>\<open>LightSensor.__init__\<close>.\<close>

definition new_distance_sensor ::
  "real \<Rightarrow> handle option \<Rightarrow> bool \<Rightarrow> bus option \<Rightarrow> sensor_state \<times> io_event list" where
  "new_distance_sensor now_fail ctor en b =
     (let s = base_sensor en b
      in if enabled s then distance_attempt_init now_fail ctor s else (s, []))"

definition new_light_sensor ::
  "real \<Rightarrow> handle option \<Rightarrow> bool \<Rightarrow> bus option \<Rightarrow> sensor_state \<times> io_event list" where
  "new_light_sensor now_fail ctor en b =
     (let s = base_sensor en b
      in if enabled s then light_attempt_init now_fail ctor s else (s, []))"

section \<open>Configuration (src/pi\_kiosk/config.py)\<close>

text \<open>
  The fields of \<^verbatim>\<open>KioskConfig\<close> that the sensors, the display controller and the
  control loop read. The bounds pydantic enforces on them are the predicate
  \<open>valid_config\<close>.
\<close>

record KioskConfig =
  distance_threshold_mm :: int
  inactivity_timeout_sec :: int
  brightness_min :: int
  brightness_max :: int
  brightness_lux_max :: real
  default_brightness :: int
  brightnessctl_bin :: string
  brightnessctl_device :: "string option"
  backlight_path :: "string option"
  enable_distance_sensor :: bool
  enable_light_sensor :: bool

definition valid_config :: "KioskConfig \<Rightarrow> bool" where
  "valid_config cfg =
     (100 \<le> distance_threshold_mm cfg \<and> distance_threshold_mm cfg \<le> 5000
      \<and> 5 \<le> inactivity_timeout_sec cfg \<and> inactivity_timeout_sec cfg \<le> 3600
      \<and> 0 \<le> brightness_min cfg \<and> brightness_min cfg \<le> 255
      \<and> 1 \<le> brightness_max cfg \<and> brightness_max cfg \<le> 255
      \<and> brightness_min cfg < brightness_max cfg
      \<and> 0 < brightness_lux_max cfg
      \<and> 0 \<le> default_brightness cfg \<and> default_brightness cfg \<le> 255)"

definition as_brightness_bounds :: "KioskConfig \<Rightarrow> int \<times> int" where
  "as_brightness_bounds cfg = (brightness_min cfg, brightness_max cfg)"

section \<open>The sensor suite\<close>

record SensorReadings =
  distance_mm :: "real option"
  ambient_lux :: "real option"

record SensorSuite =
  suite_i2c :: "bus option"
  distance :: sensor_state
  light :: sensor_state

text \<open>
  What construction of the suite meets outside the program: the outcome of
  \<^verbatim>\<open>busio.I2C(...)\<close> (\<open>None\<close> when it raises) and, for each sensor constructor, the
  driver constructor's outcome and the clock value a failure would read.
\<close>

record suite_env =
  s_acquire :: "bus option"
  s_d_clock_fail :: real
  s_d_construct :: "handle option"
  s_l_clock_fail :: real
  s_l_construct :: "handle option"

definition init_i2c_bus :: "KioskConfig \<Rightarrow> bus option \<Rightarrow> bus option" where
  "init_i2c_bus cfg acquire =
     (if \<not> (enable_distance_sensor cfg \<or> enable_light_sensor cfg) then None
      else acquire)"

definition new_suite :: "KioskConfig \<Rightarrow> suite_env \<Rightarrow> SensorSuite \<times> io_event list" where
  "new_suite cfg e =
     (let b = init_i2c_bus cfg (s_acquire e);
          (d, io1) = new_distance_sensor (s_d_clock_fail e) (s_d_construct e)
                       (enable_distance_sensor cfg) b;
          (l, io2) = new_light_sensor (s_l_clock_fail e) (s_l_construct e)
                       (enable_light_sensor cfg) b
      in (\<lparr>suite_i2c = b, distance = d, light = l\<rparr>, io1 @ io2))"

definition suite_read ::
  "distance_env \<Rightarrow> light_env \<Rightarrow> SensorSuite
     \<Rightarrow> SensorReadings \<times> SensorSuite \<times> io_event list" where
  "suite_read de le su =
     (let (dv, d, io1) = distance_read de (distance su);
          (lv, l, io2) = light_read le (light su)
      in (\<lparr>distance_mm = dv, ambient_lux = lv\<rparr>,
          su\<lparr>distance := d, light := l\<rparr>, io1 @ io2))"

definition distance_supported :: "SensorSuite \<Rightarrow> bool" where
  "distance_supported su = is_supported (distance su)"

definition light_supported :: "SensorSuite \<Rightarrow> bool" where
  "light_supported su = is_supported (light su)"

definition health_snapshot :: "SensorSuite \<Rightarrow> bool \<times> bool \<times> bool" where
  "health_snapshot su =
     (distance_supported su, light_supported su, suite_i2c su \<noteq> None)"

text \<open>
  The rest of the process only ever calls \<^verbatim>\<open>read\<close> on the suite, once per tick, with
  whatever the hardware answers at that tick.
\<close>

fun suite_reads ::
  "(distance_env \<times> light_env) list \<Rightarrow> SensorSuite
     \<Rightarrow> SensorReadings list \<times> SensorSuite \<times> io_event list" where
  "suite_reads [] su = ([], su, [])"
| "suite_reads ((de, le) # es) su =
     (let (r, su1, io1) = suite_read de le su;
          (rs, su2, io2) = suite_reads es su1
      in (r # rs, su2, io1 @ io2))"

section \<open>The display controller (src/pi\_kiosk/display.py)\<close>

text \<open>
  A command the controller issues: a subprocess with its argument list, or a write of
  the decimal brightness to the backlight file. \<open>Dec n\<close> is the argument
  \<^verbatim>\<open>str(n)\<close> and \<open>DeviceFlag d\<close> the argument \<^verbatim>\<open>--device=d\<close>. The environment
  passed to \<^verbatim>\<open>xset\<close> is left out.
\<close>

datatype arg = Lit string | DeviceFlag string | Dec int

datatype command = RunCmd "arg list" | WriteFile string int

record DisplayState =
  screen_on :: bool
  brightness :: "int option"

record ScreenController =
  state :: DisplayState
  warned_brightness :: bool

text \<open>
  What one call of \<^verbatim>\<open>set_brightness\<close> meets outside the program: whether the
  brightnessctl binary exists, whether the subprocess exits with status 0 (\<^verbatim>\<open>_run\<close>
  turns every exception into \<^verbatim>\<open>False\<close>), whether the file write succeeds.
\<close>

record brightness_env =
  bin_exists :: bool
  run_ok :: bool
  write_ok :: bool

definition new_controller :: "ScreenController" where
  "new_controller =
     \<lparr>state = \<lparr>screen_on = True, brightness = None\<rparr>, warned_brightness = False\<rparr>"

text \<open>Python's \<^verbatim>\<open>int(x)\<close> on a float truncates towards zero.\<close>

definition py_int :: "real \<Rightarrow> int" where
  "py_int x = (if x < 0 then \<lceil>x\<rceil> else \<lfloor>x\<rfloor>)"

definition brightness_from_lux :: "KioskConfig \<Rightarrow> real option \<Rightarrow> int" where
  "brightness_from_lux cfg lux =
     (case lux of
        None \<Rightarrow> default_brightness cfg
      | Some l \<Rightarrow>
         (let (min_b, max_b) = as_brightness_bounds cfg;
              ratio = min 1 (l / max 1 (brightness_lux_max cfg));
              v = py_int (real_of_int min_b + real_of_int (max_b - min_b) * ratio)
          in max min_b (min max_b v)))"

text \<open>
  \<^verbatim>\<open>_run_display_cmd\<close> only logs when the command fails, so \<open>ok\<close>, the exit status of
  the command, reaches nothing in the state.
\<close>

definition run_display_cmd :: "bool \<Rightarrow> arg list \<Rightarrow> command list" where
  "run_display_cmd ok args = [RunCmd args]"

definition wake_screen :: "bool \<Rightarrow> ScreenController \<Rightarrow> ScreenController \<times> command list" where
  "wake_screen ok c =
     (if screen_on (state c) then (c, [])
      else (c\<lparr>state := (state c)\<lparr>screen_on := True\<rparr>\<rparr>,
            run_display_cmd ok [Lit ''xset'', Lit ''dpms'', Lit ''force'', Lit ''on'']))"

definition sleep_screen :: "bool \<Rightarrow> ScreenController \<Rightarrow> ScreenController \<times> command list" where
  "sleep_screen ok c =
     (if \<not> screen_on (state c) then (c, [])
      else (c\<lparr>state := (state c)\<lparr>screen_on := False\<rparr>\<rparr>,
            run_display_cmd ok [Lit ''xset'', Lit ''dpms'', Lit ''force'', Lit ''off'']))"

definition use_brightnessctl ::
  "KioskConfig \<Rightarrow> brightness_env \<Rightarrow> int \<Rightarrow> bool \<times> command list" where
  "use_brightnessctl cfg e target =
     (if brightnessctl_bin cfg = [] \<or> \<not> bin_exists e then (False, [])
      else (let dev = (case brightnessctl_device cfg of
                         None \<Rightarrow> []
                       | Some d \<Rightarrow> if d = [] then [] else [DeviceFlag d]);
                args = [Lit (brightnessctl_bin cfg)] @ dev @ [Lit ''set'', Dec target]
            in (run_ok e, [RunCmd args])))"

definition write_backlight_file ::
  "KioskConfig \<Rightarrow> brightness_env \<Rightarrow> int \<Rightarrow> bool \<times> command list" where
  "write_backlight_file cfg e target =
     (case backlight_path cfg of
        None \<Rightarrow> (False, [])
      | Some p \<Rightarrow> if p = [] then (False, []) else (write_ok e, [WriteFile p target]))"

definition set_brightness ::
  "KioskConfig \<Rightarrow> brightness_env \<Rightarrow> int \<Rightarrow> ScreenController
     \<Rightarrow> ScreenController \<times> command list" where
  "set_brightness cfg e target0 c =
     (let (min_b, max_b) = as_brightness_bounds cfg;
          target = max min_b (min max_b target0)
      in if brightness (state c) = Some target then (c, [])
         else (let (ok1, cmds1) = use_brightnessctl cfg e target
               in if ok1 then (c\<lparr>state := (state c)\<lparr>brightness := Some target\<rparr>\<rparr>, cmds1)
                  else (let (ok2, cmds2) = write_backlight_file cfg e target
                        in if ok2
                           then (c\<lparr>state := (state c)\<lparr>brightness := Some target\<rparr>\<rparr>,
                                 cmds1 @ cmds2)
                           else (c\<lparr>warned_brightness := True\<rparr>, cmds1 @ cmds2))))"

section \<open>The control loop (src/pi\_kiosk/main.py)\<close>

text \<open>
  One iteration of the \<^verbatim>\<open>while running\<close> loop of \<^verbatim>\<open>run\<close>, up to the
  \<^verbatim>\<open>time.sleep\<close>. Besides the new state it returns the controller methods it
  invoked, the commands those issued and the bus accesses of the sensors.
\<close>

datatype call = CallWake | CallSleep | CallSetBrightness int

record loop_state =
  sensors :: SensorSuite
  screen :: ScreenController
  last_motion_ts :: real
  last_health_log :: real

record tick_env =
  t_distance :: distance_env
  t_light :: light_env
  t_now :: real
  t_wake_ok :: bool
  t_sleep_ok :: bool
  t_brightness :: brightness_env

definition tick ::
  "KioskConfig \<Rightarrow> tick_env \<Rightarrow> loop_state
     \<Rightarrow> loop_state \<times> call list \<times> command list \<times> io_event list" where
  "tick cfg e ls =
     (let (readings, su, io) = suite_read (t_distance e) (t_light e) (sensors ls);
          now = t_now e;
          distance_capable = (enable_distance_sensor cfg \<and> distance_supported su);
          (lm, c1, calls1, cmds1) =
            (case distance_mm readings of
               None \<Rightarrow> (last_motion_ts ls, screen ls, [], [])
             | Some d \<Rightarrow>
                 if d \<le> real_of_int (distance_threshold_mm cfg)
                 then (let (c, cmds) = wake_screen (t_wake_ok e) (screen ls)
                       in (now, c, [CallWake], cmds))
                 else (last_motion_ts ls, screen ls, [], []));
          (c2, calls2, cmds2) =
            (if distance_capable \<and> now - lm > real_of_int (inactivity_timeout_sec cfg)
             then (let (c, cmds) = sleep_screen (t_sleep_ok e) c1
                   in (c, [CallSleep], cmds))
             else (c1, [], []));
          b = brightness_from_lux cfg (ambient_lux readings);
          (c3, cmds3) = set_brightness cfg (t_brightness e) b c2;
          lh = (if now - last_health_log ls \<ge> 60 then now else last_health_log ls)
      in (\<lparr>sensors = su, screen = c3, last_motion_ts = lm, last_health_log = lh\<rparr>,
          calls1 @ calls2 @ [CallSetBrightness b],
          cmds1 @ cmds2 @ cmds3,
          io))"

text \<open>
  The loop itself. It has no exit of its own: the signal handler clears \<^verbatim>\<open>running\<close>,
  so a run of the process is a finite list of iterations, one for each element of
  \<open>es\<close>, the answers of the outside world during that iteration.
\<close>

fun run_loop ::
  "KioskConfig \<Rightarrow> tick_env list \<Rightarrow> loop_state
     \<Rightarrow> loop_state \<times> call list \<times> command list \<times> io_event list" where
  "run_loop cfg [] ls = (ls, [], [], [])"
| "run_loop cfg (e # es) ls =
     (let (ls1, calls1, cmds1, io1) = tick cfg e ls;
          (ls2, calls2, cmds2, io2) = run_loop cfg es ls1
      in (ls2, calls1 @ calls2, cmds1 @ cmds2, io1 @ io2))"

section \<open>Concrete inputs\<close>

text \<open>
  States, configurations and answers of the outside world on which the theorems below
  are instantiated: a sensor holding a handle, one waiting for its next attempt, one
  due for a retry after six failures; drivers that answer normally, report no data,
  return an invalid value or raise; the default configuration with a backlight path,
  and one with \<^verbatim>\<open>BRIGHTNESS_LUX_MAX=0.5\<close>.
\<close>

definition ex_ready :: sensor_state where
  "ex_ready =
     \<lparr>enabled = True, sensor = Some 7, fail_count = 0, next_attempt = 0, i2c = Some 1\<rparr>"

definition ex_waiting :: sensor_state where
  "ex_waiting =
     \<lparr>enabled = True, sensor = None, fail_count = 3, next_attempt = 20, i2c = Some 1\<rparr>"



definition ex_disabled :: sensor_state where
  "ex_disabled =
     \<lparr>enabled = False, sensor = None, fail_count = 0, next_attempt = 0, i2c = None\<rparr>"

definition ex_denv :: distance_env where
  "ex_denv =
     \<lparr>d_clock = 12, d_clock_fail = 13, d_construct = Some 7,
      d_has_data_ready = Val True, d_data_ready = Val True,
      d_distance = Val (Some 1200), d_clear_interrupt = Val ()\<rparr>"

definition ex_denv_zero :: distance_env where
  "ex_denv_zero = ex_denv\<lparr>d_distance := Val (Some 0)\<rparr>"


definition ex_denv_not_ready :: distance_env where
  "ex_denv_not_ready = ex_denv\<lparr>d_has_data_ready := Val False, d_data_ready := Val False\<rparr>"


definition ex_lenv :: light_env where
  "ex_lenv = \<lparr>l_clock = 12, l_clock_fail = 13, l_construct = Some 8, l_lux = Val (Some 200)\<rparr>"

definition ex_lenv_none :: light_env where
  "ex_lenv_none = ex_lenv\<lparr>l_lux := Val None\<rparr>"



definition ex_cfg :: KioskConfig where
  "ex_cfg =
     \<lparr>distance_threshold_mm = 1500, inactivity_timeout_sec = 90,
      brightness_min = 10, brightness_max = 255, brightness_lux_max = 400,
      default_brightness = 120, brightnessctl_bin = ''/usr/bin/brightnessctl'',
      brightnessctl_device = None,
      backlight_path = Some ''/sys/class/backlight/rpi/brightness'',
      enable_distance_sensor = True, enable_light_sensor = True\<rparr>"

definition ex_cfg_half :: KioskConfig where
  "ex_cfg_half = ex_cfg\<lparr>brightness_lux_max := 1 / 2, backlight_path := None\<rparr>"



definition ex_ctl_works :: brightness_env where
  "ex_ctl_works = \<lparr>bin_exists = True, run_ok = True, write_ok = True\<rparr>"

definition ex_no_bus :: suite_env where
  "ex_no_bus =
     \<lparr>s_acquire = None, s_d_clock_fail = 1, s_d_construct = Some 7,
      s_l_clock_fail = 1, s_l_construct = Some 8\<rparr>"

definition ex_tick_env :: tick_env where
  "ex_tick_env =
     \<lparr>t_distance = ex_denv_not_ready\<lparr>d_clock := 100\<rparr>, t_light = ex_lenv\<lparr>l_clock := 100\<rparr>,
      t_now = 100, t_wake_ok = True, t_sleep_ok = True, t_brightness = ex_ctl_works\<rparr>"

definition ex_loop :: "sensor_state \<Rightarrow> loop_state" where
  "ex_loop d =
     \<lparr>sensors = \<lparr>suite_i2c = Some 1, distance = d, light = ex_ready\<lparr>sensor := Some 8\<rparr>\<rparr>,
      screen = new_controller, last_motion_ts = 5, last_health_log = 0\<rparr>"

section \<open>Auxiliary facts about the sensors\<close>

lemma ready_not_enabled: "\<not> enabled s \<Longrightarrow> ready f now s = (False, s, [])"
  by (simp add: ready_def)

lemma ready_waiting: "now < next_attempt s \<Longrightarrow> ready f now s = (False, s, [])"
  by (simp add: ready_def)








lemma distance_read_disabled: "\<not> enabled s \<Longrightarrow> distance_read e s = (None, s, [])"
  by (simp add: distance_read_def ready_not_enabled)

lemma light_read_disabled: "\<not> enabled s \<Longrightarrow> light_read e s = (None, s, [])"
  by (simp add: light_read_def ready_not_enabled)

lemma disabled_stays:
  "\<not> enabled s \<Longrightarrow> \<not> enabled (disable s)"
  "\<not> enabled s \<Longrightarrow> \<not> enabled (backoff now s)"
  "\<not> enabled s \<Longrightarrow> distance_attempt_init now ctor s = (s, [])"
  "\<not> enabled s \<Longrightarrow> light_attempt_init now ctor s = (s, [])"
  "\<not> is_supported (disable s)"
  by (simp_all add: disable_def backoff_def Let_def distance_attempt_init_def
        light_attempt_init_def is_supported_def)

section \<open>Reads that return an invalid value\<close>




section \<open>The backoff schedule\<close>



section \<open>Reads while waiting for the next attempt\<close>

text \<open>
  C5: whenever the clock value read in \<^verbatim>\<open>_ready\<close> is below the sensor's next attempt
  time, \<^verbatim>\<open>read\<close> returns \<^verbatim>\<open>None\<close>, makes no bus access and no initialization attempt
  (the list of events is empty), and returns the sensor state it was given, for the
  distance sensor and for the light sensor.
\<close>

theorem read_short_circuits_during_backoff:
  "(d_clock de < next_attempt s \<longrightarrow> distance_read de s = (None, s, []))
   \<and> (l_clock le < next_attempt s \<longrightarrow> light_read le s = (None, s, []))"
  by (simp add: distance_read_def light_read_def ready_waiting)

theorem read_short_circuits_during_backoff_witness:
  "d_clock ex_denv < next_attempt ex_waiting
   \<and> distance_read ex_denv ex_waiting = (None, ex_waiting, [])
   \<and> l_clock ex_lenv < next_attempt ex_waiting
   \<and> light_read ex_lenv ex_waiting = (None, ex_waiting, [])"
  using read_short_circuits_during_backoff [of ex_denv ex_waiting ex_lenv]
  by (simp add: ex_denv_def ex_waiting_def ex_lenv_def)

section \<open>A distance sensor without new data\<close>

text \<open>
  C10: a distance sensor in state Ready (enabled and holding a handle) whose driver has
  a \<^verbatim>\<open>data_ready\<close> attribute that reads as false returns \<^verbatim>\<open>None\<close> from \<^verbatim>\<open>read\<close>
  and keeps its entire state: the failure count is neither reset nor incremented, the
  handle stays, no backoff is scheduled. Only \<^verbatim>\<open>data_ready\<close> is read from the driver
  (twice, by \<^verbatim>\<open>hasattr\<close> and by the test), never the distance.
\<close>

theorem data_not_ready_is_neutral:
  assumes "enabled s" and "sensor s = Some h"
    and "d_has_data_ready e = Val b" and "d_data_ready e = Val False"
  shows "distance_read e s =
           (None, s,
            if d_clock e < next_attempt s then [] else [ProbeDataReady, GetDataReady])"
  using assms by (simp add: distance_read_def ready_def distance_try_def)

theorem data_not_ready_is_neutral_witness:
  "enabled ex_ready \<and> sensor ex_ready = Some 7
   \<and> d_has_data_ready ex_denv_not_ready = Val False
   \<and> d_data_ready ex_denv_not_ready = Val False
   \<and> distance_read ex_denv_not_ready ex_ready
       = (None, ex_ready, [ProbeDataReady, GetDataReady])"
  using data_not_ready_is_neutral [of ex_ready 7 ex_denv_not_ready False]
  by (simp add: ex_ready_def ex_denv_not_ready_def ex_denv_def)

section \<open>Auxiliary facts about the suite and the loop\<close>

lemma suite_read_parts:
  "distance_mm (fst (suite_read de le su)) = fst (distance_read de (distance su))"
  "ambient_lux (fst (suite_read de le su)) = fst (light_read le (light su))"
  "distance (fst (snd (suite_read de le su))) = fst (snd (distance_read de (distance su)))"
  "light (fst (snd (suite_read de le su))) = fst (snd (light_read le (light su)))"
  "snd (snd (suite_read de le su))
     = snd (snd (distance_read de (distance su))) @ snd (snd (light_read le (light su)))"
  by (simp_all add: suite_read_def split: prod.split)

lemma suite_read_disabled:
  "\<not> enabled (distance su) \<Longrightarrow> \<not> enabled (light su)
   \<Longrightarrow> suite_read de le su = (\<lparr>distance_mm = None, ambient_lux = None\<rparr>, su, [])"
  by (simp add: suite_read_def distance_read_disabled light_read_disabled)

lemma suite_reads_disabled:
  "\<not> enabled (distance su) \<Longrightarrow> \<not> enabled (light su)
   \<Longrightarrow> suite_reads es su
       = (replicate (length es) \<lparr>distance_mm = None, ambient_lux = None\<rparr>, su, [])"
  by (induction es) (auto simp: suite_read_disabled)

lemma new_distance_sensor_no_bus:
  "new_distance_sensor now ctor en None
     = (\<lparr>enabled = False, sensor = None, fail_count = 0, next_attempt = 0, i2c = None\<rparr>, [])"
  by (cases en)
    (simp_all add: new_distance_sensor_def base_sensor_def distance_attempt_init_def
       disable_def Let_def)

lemma new_light_sensor_no_bus:
  "new_light_sensor now ctor en None
     = (\<lparr>enabled = False, sensor = None, fail_count = 0, next_attempt = 0, i2c = None\<rparr>, [])"
  by (cases en)
    (simp_all add: new_light_sensor_def base_sensor_def light_attempt_init_def
       disable_def Let_def)

lemma new_suite_no_bus:
  "s_acquire e = None \<Longrightarrow>
   new_suite cfg e =
     (\<lparr>suite_i2c = None,
       distance =
         \<lparr>enabled = False, sensor = None, fail_count = 0, next_attempt = 0, i2c = None\<rparr>,
       light =
         \<lparr>enabled = False, sensor = None, fail_count = 0, next_attempt = 0, i2c = None\<rparr>\<rparr>,
      [])"
  by (simp add: new_suite_def init_i2c_bus_def new_distance_sensor_no_bus
        new_light_sensor_no_bus)

lemma tick_sensors:
  "sensors (fst (tick cfg e ls))
     = fst (snd (suite_read (t_distance e) (t_light e) (sensors ls)))"
  by (simp add: tick_def Let_def split: prod.split option.split)

lemma tick_io:
  "snd (snd (snd (tick cfg e ls)))
     = snd (snd (suite_read (t_distance e) (t_light e) (sensors ls)))"
  by (simp add: tick_def Let_def split: prod.split option.split)



lemma run_loop_Cons_state:
  "fst (run_loop cfg (e # es) ls) = fst (run_loop cfg es (fst (tick cfg e ls)))"
  by (simp add: case_prod_beta Let_def)

lemma run_loop_Cons_io:
  "snd (snd (snd (run_loop cfg (e # es) ls)))
     = snd (snd (snd (tick cfg e ls)))
       @ snd (snd (snd (run_loop cfg es (fst (tick cfg e ls)))))"
  by (simp add: case_prod_beta Let_def)

lemma tick_disabled:
  "\<not> enabled (distance (sensors ls))
     \<Longrightarrow> distance (sensors (fst (tick cfg e ls))) = distance (sensors ls)"
  "\<not> enabled (light (sensors ls))
     \<Longrightarrow> light (sensors (fst (tick cfg e ls))) = light (sensors ls)"
  "\<not> enabled (distance (sensors ls)) \<Longrightarrow> \<not> enabled (light (sensors ls))
     \<Longrightarrow> snd (snd (snd (tick cfg e ls))) = []"
  by (simp_all add: tick_sensors tick_io suite_read_parts distance_read_disabled
        light_read_disabled)

lemma run_loop_disabled_distance:
  "\<not> enabled (distance (sensors ls))
   \<Longrightarrow> distance (sensors (fst (run_loop cfg es ls))) = distance (sensors ls)"
proof (induction es arbitrary: ls)
  case Nil
  then show ?case by simp
next
  case (Cons e es)
  then show ?case
    by (simp only: run_loop_Cons_state tick_disabled(1) not_False_eq_True)
qed

lemma run_loop_disabled_light:
  "\<not> enabled (light (sensors ls))
   \<Longrightarrow> light (sensors (fst (run_loop cfg es ls))) = light (sensors ls)"
proof (induction es arbitrary: ls)
  case Nil
  then show ?case by simp
next
  case (Cons e es)
  then show ?case
    by (simp only: run_loop_Cons_state tick_disabled(2) not_False_eq_True)
qed

lemma run_loop_disabled_io:
  "\<not> enabled (distance (sensors ls)) \<Longrightarrow> \<not> enabled (light (sensors ls))
   \<Longrightarrow> snd (snd (snd (run_loop cfg es ls))) = []"
proof (induction es arbitrary: ls)
  case Nil
  then show ?case by simp
next
  case (Cons e es)
  have "snd (snd (snd (run_loop cfg es (fst (tick cfg e ls))))) = []"
    using Cons.prems by (intro Cons.IH) (simp_all add: tick_disabled)
  with Cons.prems show ?case
    by (simp add: run_loop_Cons_io tick_disabled(3) del: run_loop.simps)
qed

lemma new_sensor_disabled_unsupported:
  "\<not> enabled (fst (new_distance_sensor now ctor en b))
     \<Longrightarrow> \<not> is_supported (fst (new_distance_sensor now ctor en b))"
  "\<not> enabled (fst (new_light_sensor now ctor en b))
     \<Longrightarrow> \<not> is_supported (fst (new_light_sensor now ctor en b))"
  by (auto simp: new_distance_sensor_def new_light_sensor_def base_sensor_def
        distance_attempt_init_def light_attempt_init_def disable_def backoff_def
        is_supported_def Let_def split: if_splits option.splits)

lemma read_disabled_unsupported:
  "enabled s \<or> \<not> is_supported s
    \<Longrightarrow> \<not> enabled (fst (snd (distance_read de s)))
    \<Longrightarrow> \<not> is_supported (fst (snd (distance_read de s)))"
  "enabled s \<or> \<not> is_supported s
    \<Longrightarrow> \<not> enabled (fst (snd (light_read le s)))
    \<Longrightarrow> \<not> is_supported (fst (snd (light_read le s)))"
  by (auto simp: distance_read_def light_read_def ready_def distance_attempt_init_def
        light_attempt_init_def disable_def backoff_def is_supported_def Let_def
        distance_try_def distance_fetch_def light_try_def
        split: if_splits option.splits sum.splits prod.splits attr.splits bool.splits)

section \<open>A lost bus and disabled sensors\<close>

text \<open>
  C6: when at least one sensor is enabled in the configuration and the bus cannot be
  acquired, construction of the suite makes no per-sensor hardware initialization (no
  event at all) and leaves both sensors disabled and unsupported, so the health
  snapshot is all false; from then on every read of the suite returns no distance and
  no lux without touching the hardware, and a run of the control loop of any length
  leaves both sensors as they are and makes no bus access. In general a sensor whose
  \<open>enabled\<close> flag is false stays so: \<^verbatim>\<open>read\<close> returns \<^verbatim>\<open>None\<close> with no event and the
  same state, \<^verbatim>\<open>_attempt_init\<close> does nothing, neither \<^verbatim>\<open>disable\<close> nor \<^verbatim>\<open>_backoff\<close> sets
  the flag, a sensor is unsupported after \<^verbatim>\<open>disable\<close>, and however long the loop runs
  the sensor's state at the end is the one at the start. A disabled sensor is also
  unsupported in every state the program reaches: a sensor that leaves its constructor
  disabled holds no handle, and a read that starts from a sensor that is enabled or
  unsupported ends with a sensor that is enabled or unsupported.
\<close>

theorem bus_failure_disables_for_good:
  "((enable_distance_sensor cfg \<or> enable_light_sensor cfg) \<and> s_acquire e = None
    \<longrightarrow> snd (new_suite cfg e) = []
      \<and> \<not> enabled (distance (fst (new_suite cfg e)))
      \<and> \<not> enabled (light (fst (new_suite cfg e)))
      \<and> \<not> distance_supported (fst (new_suite cfg e))
      \<and> \<not> light_supported (fst (new_suite cfg e))
      \<and> health_snapshot (fst (new_suite cfg e)) = (False, False, False)
      \<and> suite_reads rs (fst (new_suite cfg e))
          = (replicate (length rs) \<lparr>distance_mm = None, ambient_lux = None\<rparr>,
             fst (new_suite cfg e), [])
      \<and> distance (sensors (fst (run_loop cfg es (ls\<lparr>sensors := fst (new_suite cfg e)\<rparr>))))
          = distance (fst (new_suite cfg e))
      \<and> light (sensors (fst (run_loop cfg es (ls\<lparr>sensors := fst (new_suite cfg e)\<rparr>))))
          = light (fst (new_suite cfg e))
      \<and> snd (snd (snd (run_loop cfg es (ls\<lparr>sensors := fst (new_suite cfg e)\<rparr>)))) = [])
   \<and> (\<not> enabled s
      \<longrightarrow> distance_read de s = (None, s, []) \<and> light_read le s = (None, s, [])
        \<and> distance_attempt_init now ctor s = (s, [])
        \<and> light_attempt_init now ctor s = (s, [])
        \<and> \<not> enabled (disable s) \<and> \<not> enabled (backoff now s)
        \<and> \<not> is_supported (disable s))
   \<and> (\<not> enabled (distance (sensors ls))
      \<longrightarrow> distance (sensors (fst (run_loop cfg es ls))) = distance (sensors ls))
   \<and> (\<not> enabled (light (sensors ls))
      \<longrightarrow> light (sensors (fst (run_loop cfg es ls))) = light (sensors ls))
   \<and> (\<not> enabled (fst (new_distance_sensor now ctor en b))
      \<longrightarrow> \<not> is_supported (fst (new_distance_sensor now ctor en b)))
   \<and> (\<not> enabled (fst (new_light_sensor now ctor en b))
      \<longrightarrow> \<not> is_supported (fst (new_light_sensor now ctor en b)))
   \<and> ((enabled s \<or> \<not> is_supported s) \<and> \<not> enabled (fst (snd (distance_read de s)))
      \<longrightarrow> \<not> is_supported (fst (snd (distance_read de s))))
   \<and> ((enabled s \<or> \<not> is_supported s) \<and> \<not> enabled (fst (snd (light_read le s)))
      \<longrightarrow> \<not> is_supported (fst (snd (light_read le s))))"
proof (intro conjI impI)
  assume a: "(enable_distance_sensor cfg \<or> enable_light_sensor cfg) \<and> s_acquire e = None"
  let ?su = "fst (new_suite cfg e)"
  let ?ls = "ls\<lparr>sensors := ?su\<rparr>"
  from a have n: "s_acquire e = None" by simp
  show "snd (new_suite cfg e) = []"
    and d: "\<not> enabled (distance ?su)" and l: "\<not> enabled (light ?su)"
    and "\<not> distance_supported ?su" and "\<not> light_supported ?su"
    and "health_snapshot ?su = (False, False, False)"
    by (simp_all add: new_suite_no_bus [OF n] distance_supported_def light_supported_def
          is_supported_def health_snapshot_def)
  from d l show "suite_reads rs ?su
          = (replicate (length rs) \<lparr>distance_mm = None, ambient_lux = None\<rparr>, ?su, [])"
    by (rule suite_reads_disabled)
  from d have d': "\<not> enabled (distance (sensors ?ls))" by simp
  from l have l': "\<not> enabled (light (sensors ?ls))" by simp
  from run_loop_disabled_distance [OF d', of cfg es]
  show "distance (sensors (fst (run_loop cfg es ?ls))) = distance ?su" by simp
  from run_loop_disabled_light [OF l', of cfg es]
  show "light (sensors (fst (run_loop cfg es ?ls))) = light ?su" by simp
  from d' l' show "snd (snd (snd (run_loop cfg es ?ls))) = []"
    by (rule run_loop_disabled_io)
next
  assume "\<not> enabled s"
  then show "distance_read de s = (None, s, [])" and "light_read le s = (None, s, [])"
    and "distance_attempt_init now ctor s = (s, [])"
    and "light_attempt_init now ctor s = (s, [])"
    and "\<not> enabled (disable s)" and "\<not> enabled (backoff now s)"
    and "\<not> is_supported (disable s)"
    by (simp_all add: distance_read_disabled light_read_disabled disabled_stays)
next
  assume "\<not> enabled (distance (sensors ls))"
  then show "distance (sensors (fst (run_loop cfg es ls))) = distance (sensors ls)"
    by (rule run_loop_disabled_distance)
next
  assume "\<not> enabled (light (sensors ls))"
  then show "light (sensors (fst (run_loop cfg es ls))) = light (sensors ls)"
    by (rule run_loop_disabled_light)
next
  assume "\<not> enabled (fst (new_distance_sensor now ctor en b))"
  then show "\<not> is_supported (fst (new_distance_sensor now ctor en b))"
    by (rule new_sensor_disabled_unsupported)
next
  assume "\<not> enabled (fst (new_light_sensor now ctor en b))"
  then show "\<not> is_supported (fst (new_light_sensor now ctor en b))"
    by (rule new_sensor_disabled_unsupported)
next
  assume "(enabled s \<or> \<not> is_supported s) \<and> \<not> enabled (fst (snd (distance_read de s)))"
  then show "\<not> is_supported (fst (snd (distance_read de s)))"
    by (simp add: read_disabled_unsupported)
next
  assume "(enabled s \<or> \<not> is_supported s) \<and> \<not> enabled (fst (snd (light_read le s)))"
  then show "\<not> is_supported (fst (snd (light_read le s)))"
    by (simp add: read_disabled_unsupported)
qed

theorem bus_failure_disables_for_good_witness:
  "(enable_distance_sensor ex_cfg \<or> enable_light_sensor ex_cfg) \<and> s_acquire ex_no_bus = None
   \<and> new_suite ex_cfg ex_no_bus
       = (\<lparr>suite_i2c = None, distance = ex_disabled, light = ex_disabled\<rparr>, [])
   \<and> health_snapshot (fst (new_suite ex_cfg ex_no_bus)) = (False, False, False)
   \<and> suite_reads [(ex_denv, ex_lenv), (ex_denv_zero, ex_lenv_none)]
        (fst (new_suite ex_cfg ex_no_bus))
       = ([\<lparr>distance_mm = None, ambient_lux = None\<rparr>,
           \<lparr>distance_mm = None, ambient_lux = None\<rparr>],
          fst (new_suite ex_cfg ex_no_bus), [])
   \<and> snd (snd (snd (run_loop ex_cfg [ex_tick_env, ex_tick_env]
        ((ex_loop ex_ready)\<lparr>sensors := fst (new_suite ex_cfg ex_no_bus)\<rparr>)))) = []
   \<and> \<not> enabled ex_disabled
   \<and> distance_read ex_denv ex_disabled = (None, ex_disabled, [])
   \<and> light_read ex_lenv ex_disabled = (None, ex_disabled, [])
   \<and> \<not> enabled (fst (new_light_sensor 1 (Some 8) False (Some 1)))
   \<and> \<not> is_supported (fst (new_light_sensor 1 (Some 8) False (Some 1)))
   \<and> \<not> is_supported (fst (snd (distance_read ex_denv ex_disabled)))"
proof -
  note t = bus_failure_disables_for_good
          [where cfg = ex_cfg and e = ex_no_bus and s = ex_disabled
             and rs = "[(ex_denv, ex_lenv), (ex_denv_zero, ex_lenv_none)]"
             and es = "[ex_tick_env, ex_tick_env]" and ls = "ex_loop ex_ready"
             and de = ex_denv and le = ex_lenv
             and now = 1 and ctor = "Some 8" and en = False and b = "Some 1"]
  have h: "(enable_distance_sensor ex_cfg \<or> enable_light_sensor ex_cfg)
             \<and> s_acquire ex_no_bus = None"
    by (simp add: ex_cfg_def ex_no_bus_def)
  have d: "\<not> enabled ex_disabled" "enabled ex_disabled \<or> \<not> is_supported ex_disabled"
    by (simp_all add: ex_disabled_def is_supported_def)
  have n: "new_suite ex_cfg ex_no_bus
       = (\<lparr>suite_i2c = None, distance = ex_disabled, light = ex_disabled\<rparr>, [])"
    using h by (simp add: new_suite_no_bus ex_disabled_def)
  have l: "\<not> enabled (fst (new_light_sensor 1 (Some 8) False (Some 1)))"
    by (simp add: new_light_sensor_def base_sensor_def)
  from t h have r1: "health_snapshot (fst (new_suite ex_cfg ex_no_bus)) = (False, False, False)"
    and r2: "suite_reads [(ex_denv, ex_lenv), (ex_denv_zero, ex_lenv_none)]
              (fst (new_suite ex_cfg ex_no_bus))
            = (replicate (length [(ex_denv, ex_lenv), (ex_denv_zero, ex_lenv_none)])
                 \<lparr>distance_mm = None, ambient_lux = None\<rparr>,
               fst (new_suite ex_cfg ex_no_bus), [])"
    and r3: "snd (snd (snd (run_loop ex_cfg [ex_tick_env, ex_tick_env]
              ((ex_loop ex_ready)\<lparr>sensors := fst (new_suite ex_cfg ex_no_bus)\<rparr>)))) = []"
    by blast+
  from t d have r4: "distance_read ex_denv ex_disabled = (None, ex_disabled, [])"
    and r5: "light_read ex_lenv ex_disabled = (None, ex_disabled, [])"
    by blast+
  from t l have r6: "\<not> is_supported (fst (new_light_sensor 1 (Some 8) False (Some 1)))"
    by blast
  from t d r4 have r7: "\<not> is_supported (fst (snd (distance_read ex_denv ex_disabled)))"
    by simp
  from r2 have r2': "suite_reads [(ex_denv, ex_lenv), (ex_denv_zero, ex_lenv_none)]
              (fst (new_suite ex_cfg ex_no_bus))
            = ([\<lparr>distance_mm = None, ambient_lux = None\<rparr>,
                \<lparr>distance_mm = None, ambient_lux = None\<rparr>],
               fst (new_suite ex_cfg ex_no_bus), [])"
    by (simp add: numeral_2_eq_2 del: suite_reads.simps)
  from h d(1) n l r1 r2' r3 r4 r5 r6 r7 show ?thesis
    by blast
qed

section \<open>The inactivity check of the control loop\<close>



section \<open>Auxiliary facts about the display controller\<close>

lemma py_int_mono: "x \<le> y \<Longrightarrow> py_int x \<le> py_int y"
proof -
  assume xy: "x \<le> y"
  consider "y < 0" | "x < 0" "0 \<le> y" | "0 \<le> x" by linarith
  then show ?thesis
  proof cases
    case 1
    with xy show ?thesis by (simp add: py_int_def ceiling_mono)
  next
    case 2
    have "\<lceil>x\<rceil> \<le> 0" using 2 by (simp add: ceiling_le_zero)
    moreover have "0 \<le> \<lfloor>y\<rfloor>" using 2 by simp
    ultimately have "\<lceil>x\<rceil> \<le> \<lfloor>y\<rfloor>" by linarith
    then show ?thesis using 2 by (simp add: py_int_def)
  next
    case 3
    with xy show ?thesis by (simp add: py_int_def floor_mono)
  qed
qed

lemma py_int_of_int: "py_int (real_of_int n) = n"
  by (simp add: py_int_def)

lemma clamp_mono: "a \<le> b \<Longrightarrow> max lo (min hi a) \<le> max lo (min hi (b::int))"
  by linarith

lemma brightness_from_lux_Some:
  "brightness_from_lux cfg (Some l) =
     max (brightness_min cfg) (min (brightness_max cfg)
       (py_int (real_of_int (brightness_min cfg)
                + real_of_int (brightness_max cfg - brightness_min cfg)
                  * min 1 (l / max 1 (brightness_lux_max cfg)))))"
  by (simp only: brightness_from_lux_def as_brightness_bounds_def Let_def option.case
        prod.case)

lemma brightness_from_lux_mono:
  assumes "brightness_min cfg \<le> brightness_max cfg" and "x \<le> y"
  shows "brightness_from_lux cfg (Some x) \<le> brightness_from_lux cfg (Some y)"
proof -
  let ?m = "max 1 (brightness_lux_max cfg)"
  let ?d = "real_of_int (brightness_max cfg - brightness_min cfg)"
  have m: "0 < ?m" by simp
  have "x / ?m \<le> y / ?m" using assms(2) m by (simp add: divide_right_mono)
  then have "min 1 (x / ?m) \<le> min 1 (y / ?m)" by simp
  moreover have "0 \<le> ?d" using assms(1) by simp
  ultimately have "?d * min 1 (x / ?m) \<le> ?d * min 1 (y / ?m)"
    by (rule mult_left_mono)
  then have "py_int (real_of_int (brightness_min cfg) + ?d * min 1 (x / ?m))
           \<le> py_int (real_of_int (brightness_min cfg) + ?d * min 1 (y / ?m))"
    by (intro py_int_mono) simp
  then show ?thesis
    unfolding brightness_from_lux_Some by (rule clamp_mono)
qed

lemma brightness_from_lux_saturates:
  assumes "brightness_min cfg \<le> brightness_max cfg"
    and "max 1 (brightness_lux_max cfg) \<le> x"
  shows "brightness_from_lux cfg (Some x) = brightness_max cfg"
proof -
  let ?m = "max 1 (brightness_lux_max cfg)"
  have m: "0 < ?m" by simp
  have "1 \<le> x / ?m" using assms(2) m by (simp add: le_divide_eq)
  then have r: "min 1 (x / ?m) = 1" by simp
  have e: "real_of_int (brightness_min cfg)
            + real_of_int (brightness_max cfg - brightness_min cfg) * min 1 (x / ?m)
          = real_of_int (brightness_max cfg)"
    unfolding r by simp
  show ?thesis
    unfolding brightness_from_lux_Some e py_int_of_int using assms(1) by simp
qed

lemma brightness_from_lux_zero:
  assumes "brightness_min cfg \<le> brightness_max cfg"
  shows "brightness_from_lux cfg (Some 0) = brightness_min cfg"
  using assms
  by (simp add: brightness_from_lux_def as_brightness_bounds_def Let_def py_int_of_int)






section \<open>Brightness from ambient light\<close>

text \<open>
  C3, as the specification states it: for every configuration within the bounds of the
  configuration keys, \<^verbatim>\<open>brightness_from_lux(lux_max)\<close> equals \<^verbatim>\<open>brightness_max\<close>. The
  ratio is \<^verbatim>\<open>lux / max(1.0, lux_max)\<close>, so with a \<^verbatim>\<open>BRIGHTNESS_LUX_MAX\<close> below 1 the
  brightness at \<^verbatim>\<open>lux_max\<close> stays below the maximum: with \<^verbatim>\<open>lux_max = 0.5\<close>, minimum 10
  and maximum 255 it is \<^verbatim>\<open>int(10 + 245 * 0.5) = 132\<close>.
\<close>

theorem brightness_at_lux_max_counterexample:
  "valid_config ex_cfg_half
   \<and> 0 < brightness_lux_max ex_cfg_half
   \<and> brightness_min ex_cfg_half < brightness_max ex_cfg_half
   \<and> brightness_from_lux ex_cfg_half (Some (brightness_lux_max ex_cfg_half)) = 132
   \<and> brightness_from_lux ex_cfg_half (Some (brightness_lux_max ex_cfg_half))
        \<noteq> brightness_max ex_cfg_half"
  by (simp add: valid_config_def ex_cfg_half_def ex_cfg_def brightness_from_lux_def
        as_brightness_bounds_def py_int_def Let_def)

text \<open>
  C3, amended: for every configuration with \<^verbatim>\<open>brightness_lux_max > 0\<close> and
  \<^verbatim>\<open>brightness_max > brightness_min\<close>, \<^verbatim>\<open>brightness_from_lux(None)\<close> is the default
  brightness, \<^verbatim>\<open>brightness_from_lux(0)\<close> is \<^verbatim>\<open>brightness_min\<close>,
  \<^verbatim>\<open>brightness_from_lux(max(1, lux_max))\<close> is \<^verbatim>\<open>brightness_max\<close> (so
  \<^verbatim>\<open>brightness_from_lux(lux_max)\<close> is \<^verbatim>\<open>brightness_max\<close> whenever \<^verbatim>\<open>lux_max >= 1\<close>),
  the function is monotonically non-decreasing in lux, and it saturates at
  \<^verbatim>\<open>brightness_max\<close> for lux at or beyond \<^verbatim>\<open>max(1, lux_max)\<close>.
\<close>

theorem brightness_from_lux_properties:
  assumes "0 < brightness_lux_max cfg" and "brightness_min cfg < brightness_max cfg"
  shows "brightness_from_lux cfg None = default_brightness cfg
   \<and> brightness_from_lux cfg (Some 0) = brightness_min cfg
   \<and> brightness_from_lux cfg (Some (max 1 (brightness_lux_max cfg))) = brightness_max cfg
   \<and> (1 \<le> brightness_lux_max cfg
        \<longrightarrow> brightness_from_lux cfg (Some (brightness_lux_max cfg)) = brightness_max cfg)
   \<and> (x \<le> y \<longrightarrow> brightness_from_lux cfg (Some x) \<le> brightness_from_lux cfg (Some y))
   \<and> (max 1 (brightness_lux_max cfg) \<le> z
        \<longrightarrow> brightness_from_lux cfg (Some z) = brightness_max cfg)"
proof -
  from assms(2) have le: "brightness_min cfg \<le> brightness_max cfg" by simp
  have "brightness_from_lux cfg None = default_brightness cfg"
    by (simp add: brightness_from_lux_def)
  moreover have "1 \<le> brightness_lux_max cfg
        \<longrightarrow> brightness_from_lux cfg (Some (brightness_lux_max cfg)) = brightness_max cfg"
    by (simp add: brightness_from_lux_saturates [OF le])
  ultimately show ?thesis
    using brightness_from_lux_zero [OF le] brightness_from_lux_mono [OF le, of x y]
      brightness_from_lux_saturates [OF le, of z]
      brightness_from_lux_saturates [OF le, of "max 1 (brightness_lux_max cfg)"]
    by simp
qed

theorem brightness_from_lux_properties_witness:
  "0 < brightness_lux_max ex_cfg \<and> brightness_min ex_cfg < brightness_max ex_cfg
   \<and> brightness_from_lux ex_cfg None = 120
   \<and> brightness_from_lux ex_cfg (Some 0) = 10
   \<and> brightness_from_lux ex_cfg (Some 400) = 255
   \<and> brightness_from_lux ex_cfg (Some 200) \<le> brightness_from_lux ex_cfg (Some 300)
   \<and> brightness_from_lux ex_cfg (Some 1000) = 255"
  using brightness_from_lux_properties [of ex_cfg 200 300 1000]
  by (simp add: ex_cfg_def)

section \<open>Setting the brightness\<close>




section \<open>Waking and blanking the screen\<close>

text \<open>
  C8: \<^verbatim>\<open>wake_screen\<close> on a screen tracked as on, and \<^verbatim>\<open>sleep_screen\<close> on a screen
  tracked as off, issue no command and return the controller unchanged. Otherwise each
  issues exactly one display-power command (\<^verbatim>\<open>xset dpms force on\<close>, respectively
  \<^verbatim>\<open>off\<close>) and flips the tracked \<^verbatim>\<open>screen_on\<close>, with the same result whether the
  command succeeds or fails. Two consecutive calls of the same method issue at most one
  command.
\<close>

theorem wake_sleep_idempotent:
  "(screen_on (state c) \<longrightarrow> wake_screen ok c = (c, []))
   \<and> (\<not> screen_on (state c) \<longrightarrow> sleep_screen ok c = (c, []))
   \<and> (\<not> screen_on (state c) \<longrightarrow>
        wake_screen ok c
          = (c\<lparr>state := (state c)\<lparr>screen_on := True\<rparr>\<rparr>,
             [RunCmd [Lit ''xset'', Lit ''dpms'', Lit ''force'', Lit ''on'']]))
   \<and> (screen_on (state c) \<longrightarrow>
        sleep_screen ok c
          = (c\<lparr>state := (state c)\<lparr>screen_on := False\<rparr>\<rparr>,
             [RunCmd [Lit ''xset'', Lit ''dpms'', Lit ''force'', Lit ''off'']]))
   \<and> wake_screen ok c = wake_screen (\<not> ok) c
   \<and> sleep_screen ok c = sleep_screen (\<not> ok) c
   \<and> length (snd (wake_screen ok c) @ snd (wake_screen ok2 (fst (wake_screen ok c)))) \<le> 1
   \<and> length (snd (sleep_screen ok c) @ snd (sleep_screen ok2 (fst (sleep_screen ok c))))
        \<le> 1"
  by (simp add: wake_screen_def sleep_screen_def run_display_cmd_def)

theorem wake_sleep_idempotent_witness:
  "screen_on (state new_controller)
   \<and> wake_screen True new_controller = (new_controller, [])
   \<and> sleep_screen False new_controller
       = (new_controller\<lparr>state := \<lparr>screen_on = False, brightness = None\<rparr>\<rparr>,
          [RunCmd [Lit ''xset'', Lit ''dpms'', Lit ''force'', Lit ''off'']])
   \<and> \<not> screen_on (state (new_controller\<lparr>state := \<lparr>screen_on = False, brightness = None\<rparr>\<rparr>))
   \<and> sleep_screen True (new_controller\<lparr>state := \<lparr>screen_on = False, brightness = None\<rparr>\<rparr>)
       = (new_controller\<lparr>state := \<lparr>screen_on = False, brightness = None\<rparr>\<rparr>, [])
   \<and> wake_screen False (new_controller\<lparr>state := \<lparr>screen_on = False, brightness = None\<rparr>\<rparr>)
       = (new_controller,
          [RunCmd [Lit ''xset'', Lit ''dpms'', Lit ''force'', Lit ''on'']])"
proof -
  let ?off = "new_controller\<lparr>state := \<lparr>screen_on = False, brightness = None\<rparr>\<rparr>"
  have on: "screen_on (state new_controller)"
    by (simp add: new_controller_def)
  have off: "\<not> screen_on (state ?off)"
    by simp
  from on wake_sleep_idempotent [of new_controller True True]
  have 1: "wake_screen True new_controller = (new_controller, [])"
    by blast
  from on wake_sleep_idempotent [of new_controller False True]
  have 2: "sleep_screen False new_controller
             = (new_controller\<lparr>state := (state new_controller)\<lparr>screen_on := False\<rparr>\<rparr>,
                [RunCmd [Lit ''xset'', Lit ''dpms'', Lit ''force'', Lit ''off'']])"
    by blast
  from off wake_sleep_idempotent [of ?off True True]
  have 3: "sleep_screen True ?off = (?off, [])"
    by blast
  from off wake_sleep_idempotent [of ?off False True]
  have 4: "wake_screen False ?off
             = (?off\<lparr>state := (state ?off)\<lparr>screen_on := True\<rparr>\<rparr>,
                [RunCmd [Lit ''xset'', Lit ''dpms'', Lit ''force'', Lit ''on'']])"
    by blast
  have 5: "new_controller\<lparr>state := (state new_controller)\<lparr>screen_on := False\<rparr>\<rparr> = ?off"
    and 6: "?off\<lparr>state := (state ?off)\<lparr>screen_on := True\<rparr>\<rparr> = new_controller"
    by (simp_all add: new_controller_def)
  from on off 1 2 3 4 show ?thesis
    unfolding 5 6 by blast
qed

section \<open>A fresh controller\<close>

text \<open>
  C9: a freshly constructed \<^verbatim>\<open>ScreenController\<close> tracks the screen as on and has no
  last applied brightness; its first \<^verbatim>\<open>wake_screen\<close> issues no display command and
  its first \<^verbatim>\<open>sleep_screen\<close> issues exactly one, whatever the command's exit status.
\<close>

theorem fresh_controller:
  "state new_controller = \<lparr>screen_on = True, brightness = None\<rparr>
   \<and> snd (wake_screen ok new_controller) = []
   \<and> length (snd (sleep_screen ok new_controller)) = 1"
  by (simp add: new_controller_def wake_screen_def sleep_screen_def run_display_cmd_def)

theorem fresh_controller_witness:
  "state new_controller = \<lparr>screen_on = True, brightness = None\<rparr>
   \<and> snd (wake_screen True new_controller) = []
   \<and> length (snd (sleep_screen True new_controller)) = 1"
  using fresh_controller [of True] by simp

end
